theory Spec2Isabelle
  imports Main
begin

section \<open>Python values\<close>

text \<open>
  A Python \<open>str\<close> is a sequence of Unicode code points, so it is modelled as a list of
  natural numbers; \<open>str\<close> embeds an ASCII literal.  Comparison of two \<open>str\<close> values is
  lexicographic by code point, a proper prefix being smaller.
\<close>

type_synonym py_str = "nat list"

definition str :: "string \<Rightarrow> py_str" where
  "str s = map of_char s"

fun str_lt :: "py_str \<Rightarrow> py_str \<Rightarrow> bool" where
  "str_lt [] [] = False"
| "str_lt [] (y # ys) = True"
| "str_lt (x # xs) [] = False"
| "str_lt (x # xs) (y # ys) = (if x = y then str_lt xs ys else x < y)"

text \<open>Python's \<open>str.join\<close>.\<close>

fun join :: "py_str \<Rightarrow> py_str list \<Rightarrow> py_str" where
  "join sep [] = []"
| "join sep [x] = x"
| "join sep (x # y # ys) = x @ sep @ join sep (y # ys)"

text \<open>
  Python's \<open>str.splitlines()\<close> (without \<open>keepends\<close>): the text is cut at every line
  boundary, a carriage return followed by a line feed counting as one boundary, and a
  boundary at the very end opens no further line.  The boundaries of a \<open>str\<close> are line
  feed, vertical tab, form feed, carriage return, the file, group and record separators,
  NEL (U+0085), and the line and paragraph separators U+2028 and U+2029.
\<close>

definition is_linebreak :: "nat \<Rightarrow> bool" where
  "is_linebreak c =
     (c \<in> set [0x0A, 0x0B, 0x0C, 0x0D, 0x1C, 0x1D, 0x1E, 0x85, 0x2028, 0x2029])"

fun skip_eol :: "py_str \<Rightarrow> py_str" where
  "skip_eol [] = []"
| "skip_eol [c] = []"
| "skip_eol (c # d # r) = (if c = 0x0D \<and> d = 0x0A then r else d # r)"

function splitlines :: "py_str \<Rightarrow> py_str list" where
  "splitlines s =
     (if s = [] then []
      else takeWhile (\<lambda>c. \<not> is_linebreak c) s
             # splitlines (skip_eol (dropWhile (\<lambda>c. \<not> is_linebreak c) s)))"
  by pat_completeness auto
termination
proof (relation "measure length")
  fix s :: py_str
  assume ne: "s \<noteq> []"
  let ?d = "dropWhile (\<lambda>c. \<not> is_linebreak c) s"
  have sk: "length (skip_eol d) < length d" if "d \<noteq> []" for d :: py_str
    using that by (cases d rule: skip_eol.cases) simp_all
  have le: "length ?d \<le> length s"
    by (rule length_dropWhile_le)
  have "length (skip_eol ?d) < length s"
  proof (cases "?d = []")
    case True
    then have "skip_eol ?d = []" by (simp only: skip_eol.simps)
    with ne show ?thesis by simp
  next
    case False
    from sk [OF False] le show ?thesis by (rule less_le_trans)
  qed
  then show "(skip_eol ?d, s) \<in> measure length" by simp
qed simp

declare splitlines.simps [simp del]

text \<open>The exceptions that the modelled code can raise.\<close>

datatype py_error =
    AttributeError py_str
  | TypeError py_str
  | ValueError py_str
  | OSError
  | UnicodeDecodeError
  | PluginContractViolation py_str py_str









section \<open>The \<open>FileReporter\<close> class: construction and comparison\<close>

text \<open>
  \<open>__init__\<close> stores its argument as the \<open>filename\<close> attribute.  An instance also knows
  its class (\<open>__repr__\<close> reads \<open>__class__.__name__\<close>); whatever else a subclass keeps in the
  object is the extension part of the record.
\<close>

record file_reporter =
  class_name :: py_str
  filename :: py_str

definition FileReporter_init :: "py_str \<Rightarrow> file_reporter" where
  "FileReporter_init fname = \<lparr>class_name = str ''FileReporter'', filename = fname\<rparr>"

text \<open>
  The right operand of a comparison is any Python object: an instance of \<open>FileReporter\<close>
  (or of a subclass), or something else.
\<close>

datatype ('a, 'b) py_object =
    Reporter "'a file_reporter_scheme"
  | Other 'b

fun isinstance_FileReporter :: "('a, 'b) py_object \<Rightarrow> bool" where
  "isinstance_FileReporter (Reporter r) = True"
| "isinstance_FileReporter (Other v) = False"

text \<open>Reading \<open>other.filename\<close>: an object that is no reporter has no such attribute.\<close>

fun getattr_filename :: "('a, 'b) py_object \<Rightarrow> py_error + py_str" where
  "getattr_filename (Reporter r) = Inr (filename r)"
| "getattr_filename (Other v) = Inl (AttributeError (str ''filename''))"

text \<open>
  \<open>__eq__\<close> and \<open>__lt__\<close>: \<open>isinstance(other, FileReporter) and self.filename OP other.filename\<close>.
  Python's \<open>and\<close> evaluates its right operand only when the left one is true.
\<close>

definition FileReporter_eq ::
  "'a file_reporter_scheme \<Rightarrow> ('c, 'b) py_object \<Rightarrow> py_error + bool" where
  "FileReporter_eq self other =
     (if isinstance_FileReporter other
      then (case getattr_filename other of
              Inl e \<Rightarrow> Inl e
            | Inr fname \<Rightarrow> Inr (filename self = fname))
      else Inr False)"

definition FileReporter_lt ::
  "'a file_reporter_scheme \<Rightarrow> ('c, 'b) py_object \<Rightarrow> py_error + bool" where
  "FileReporter_lt self other =
     (if isinstance_FileReporter other
      then (case getattr_filename other of
              Inl e \<Rightarrow> Inl e
            | Inr fname \<Rightarrow> Inr (str_lt (filename self) fname))
      else Inr False)"

definition FileReporter_ne ::
  "'a file_reporter_scheme \<Rightarrow> ('c, 'b) py_object \<Rightarrow> py_error + bool" where
  \<comment> \<open>\<open>!=\<close> is not defined by the class: Python inverts the result of \<open>__eq__\<close>.\<close>
  "FileReporter_ne self other =
     (case FileReporter_eq self other of Inl e \<Rightarrow> Inl e | Inr b \<Rightarrow> Inr (\<not> b))"

text \<open>
  \<open>__hash__ = None\<close> in the class body: the class has no hash function.  The built-in
  \<open>hash\<close> looks the slot up and raises \<open>TypeError\<close> when it is \<open>None\<close>; adding an object to
  a \<open>set\<close> or storing under it in a \<open>dict\<close> hashes it first.
\<close>

definition FileReporter_hash_slot :: "('a file_reporter_scheme \<Rightarrow> int) option" where
  "FileReporter_hash_slot = None"

definition py_hash :: "'a file_reporter_scheme \<Rightarrow> py_error + int" where
  "py_hash obj =
     (case FileReporter_hash_slot of
        None \<Rightarrow> Inl (TypeError (str ''unhashable type''))
      | Some h \<Rightarrow> Inr (h obj))"

definition set_add ::
  "'a file_reporter_scheme set \<Rightarrow> 'a file_reporter_scheme
     \<Rightarrow> py_error + 'a file_reporter_scheme set" where
  "set_add s obj = (case py_hash obj of Inl e \<Rightarrow> Inl e | Inr h \<Rightarrow> Inr (insert obj s))"

definition dict_setitem ::
  "('a file_reporter_scheme \<rightharpoonup> 'v) \<Rightarrow> 'a file_reporter_scheme \<Rightarrow> 'v
     \<Rightarrow> py_error + ('a file_reporter_scheme \<rightharpoonup> 'v)" where
  "dict_setitem d obj v =
     (case py_hash obj of Inl e \<Rightarrow> Inl e | Inr h \<Rightarrow> Inr (d(obj \<mapsto> v)))"

section \<open>Methods that a plug-in has to supply\<close>

text \<open>
  Modelled from the spec: \<open>coverage.misc._needs_to_implement\<close> is imported by the module
  but its body is not part of the sources at hand.  The specification says that a missing
  required method is a fatal plug-in contract violation, surfaced immediately and
  identifying the offending plug-in and the method: the call never returns normally, and
  the error carries the class of the object and the name of the method.
\<close>

definition needs_to_implement :: "py_str \<Rightarrow> py_str \<Rightarrow> py_error + unit" where
  "needs_to_implement that func_name = Inl (PluginContractViolation that func_name)"

text \<open>
  \<open>FileReporter.lines\<close> consists of that call alone; were the call to return, the method
  would fall off its end and give \<open>None\<close>.
\<close>

definition FileReporter_lines :: "'a file_reporter_scheme \<Rightarrow> py_error + int set option" where
  "FileReporter_lines self =
     (case needs_to_implement (class_name self) (str ''lines'') of
        Inl e \<Rightarrow> Inl e
      | Inr u \<Rightarrow> Inr None)"

record coverage_plugin =
  plugin_class_name :: py_str

definition CoveragePlugin_file_reporter ::
  "'a coverage_plugin_scheme \<Rightarrow> py_str \<Rightarrow> py_error + file_reporter option" where
  "CoveragePlugin_file_reporter self fname =
     (case needs_to_implement (plugin_class_name self) (str ''file_reporter'') of
        Inl e \<Rightarrow> Inl e
      | Inr u \<Rightarrow> Inr None)"

section \<open>Defaults of \<open>FileReporter\<close>\<close>

definition FileReporter_excluded_lines :: "'a file_reporter_scheme \<Rightarrow> int set" where
  "FileReporter_excluded_lines self = {}"

definition FileReporter_translate_lines :: "'a file_reporter_scheme \<Rightarrow> int list \<Rightarrow> int set" where
  "FileReporter_translate_lines self lines = set lines"

definition FileReporter_arcs :: "'a file_reporter_scheme \<Rightarrow> (int \<times> int) set" where
  "FileReporter_arcs self = {}"

definition FileReporter_no_branch_lines :: "'a file_reporter_scheme \<Rightarrow> int set" where
  "FileReporter_no_branch_lines self = {}"

definition FileReporter_translate_arcs ::
  "'a file_reporter_scheme \<Rightarrow> (int \<times> int) set \<Rightarrow> (int \<times> int) set" where
  "FileReporter_translate_arcs self arcs = arcs"

definition FileReporter_exit_counts :: "'a file_reporter_scheme \<Rightarrow> (int \<rightharpoonup> int)" where
  "FileReporter_exit_counts self = Map.empty"


text \<open>
  What the consistency of \<open>exit_counts()\<close> with \<open>arcs()\<close> asks: every line that is the
  \<open>prev\<close> of some arc is a key of the mapping, and its value is the number of distinct
  \<open>next\<close> lines paired with it.
\<close>

definition exits_of :: "(int \<times> int) set \<Rightarrow> int \<Rightarrow> int set" where
  "exits_of arcs l = snd ` Set.filter (\<lambda>a. fst a = l) arcs"

definition exit_counts_consistent :: "(int \<times> int) set \<Rightarrow> (int \<rightharpoonup> int) \<Rightarrow> bool" where
  "exit_counts_consistent arcs counts =
     (\<forall>l \<in> fst ` arcs. counts l = Some (int (card (exits_of arcs l))))"

text \<open>
  A plug-in's reporter is an instance of a subclass of \<open>FileReporter\<close> (the class
  docstring: file tracer plug-ins implement a subclass, and only \<open>lines\<close> is required).
  A subclass inherits the methods it does not override.  For \<open>arcs\<close> and \<open>exit_counts\<close>
  the object records what its class's own method returns, \<open>None\<close> when the class does not
  override the method; calling the method on the object runs the override if there is
  one and the method of \<open>FileReporter\<close> otherwise.
\<close>

record plugin_reporter = file_reporter +
  arcs_override :: "(int \<times> int) set option"
  exit_counts_override :: "(int \<rightharpoonup> int) option"

definition call_arcs :: "'a plugin_reporter_scheme \<Rightarrow> (int \<times> int) set" where
  "call_arcs self =
     (case arcs_override self of None \<Rightarrow> FileReporter_arcs self | Some a \<Rightarrow> a)"

definition call_exit_counts :: "'a plugin_reporter_scheme \<Rightarrow> (int \<rightharpoonup> int)" where
  "call_exit_counts self =
     (case exit_counts_override self of None \<Rightarrow> FileReporter_exit_counts self | Some m \<Rightarrow> m)"

section \<open>Source text and token lines\<close>

text \<open>
  \<open>source()\<close> opens the file named by \<open>filename\<close>, reads it and decodes the bytes as UTF-8.
  The file system is a parameter: for each name, the decoded text or the exception raised
  on the way.
\<close>

type_synonym file_system = "py_str \<Rightarrow> py_error + py_str"

definition FileReporter_source ::
  "file_system \<Rightarrow> 'a file_reporter_scheme \<Rightarrow> py_error + py_str" where
  "FileReporter_source fs self = fs (filename self)"

text \<open>
  \<open>source_token_lines()\<close> yields, for each line of \<open>source().splitlines()\<close>, the one-token
  list \<open>[('txt', line)]\<close>.  The generator is finite, so it is the list of what it yields.
\<close>

definition FileReporter_source_token_lines ::
  "file_system \<Rightarrow> 'a file_reporter_scheme \<Rightarrow> py_error + (py_str \<times> py_str) list list" where
  "FileReporter_source_token_lines fs self =
     (case FileReporter_source fs self of
        Inl e \<Rightarrow> Inl e
      | Inr text \<Rightarrow> Inr (map (\<lambda>line. [(str ''txt'', line)]) (splitlines text)))"

text \<open>
  Putting token lines back together, as the docstring words it: concatenate the token
  texts of each line, then join the lines with newlines.
\<close>

definition untokenize :: "(py_str \<times> py_str) list list \<Rightarrow> py_str" where
  "untokenize token_lines = join [0x0A] (map (\<lambda>line. concat (map snd line)) token_lines)"

section \<open>The \<open>FileTracer\<close> class\<close>

record frame =
  f_lineno :: int

record file_tracer =
  tracer_class_name :: py_str

definition FileTracer_line_number_range ::
  "'a file_tracer_scheme \<Rightarrow> 'b frame_scheme \<Rightarrow> int \<times> int" where
  "FileTracer_line_number_range self fr = (let lineno = f_lineno fr in (lineno, lineno))"

section \<open>Properties of the string order\<close>

lemma str_lt_irrefl: "\<not> str_lt xs xs"
  by (induction xs) simp_all

lemma str_lt_total: "xs \<noteq> ys \<Longrightarrow> str_lt xs ys \<or> str_lt ys xs"
  by (induction xs ys rule: str_lt.induct) auto

lemma str_lt_asym: "str_lt xs ys \<Longrightarrow> \<not> str_lt ys xs"
  by (induction xs ys rule: str_lt.induct) (auto split: if_splits)

lemma str_lt_trans: "str_lt xs ys \<Longrightarrow> str_lt ys zs \<Longrightarrow> str_lt xs zs"
proof (induction xs ys arbitrary: zs rule: str_lt.induct)
  case (4 x xs y ys)
  then show ?case
    by (cases zs) (auto split: if_splits)
qed (auto elim: str_lt.elims)

section \<open>Equality and order of reporters\<close>

text \<open>
  C2.  Two reporters are equal exactly when their file names are equal.  A reporter made
  with \<open>FileReporter("foo.py")\<close> equals every reporter whose file name is \<open>foo.py\<close>, whatever
  its class and whatever else it holds, and it is unequal to every reporter whose file
  name is \<open>bar.py\<close>.
\<close>

theorem FileReporter_eq_iff_filename:
  "FileReporter_eq a (Reporter b) = Inr (filename a = filename b)
   \<and> FileReporter_eq (FileReporter_init (str ''foo.py''))
         (Reporter (b\<lparr>filename := str ''foo.py''\<rparr>)) = Inr True
   \<and> FileReporter_eq (FileReporter_init (str ''foo.py''))
         (Reporter (b\<lparr>filename := str ''bar.py''\<rparr>)) = Inr False
   \<and> FileReporter_ne (FileReporter_init (str ''foo.py''))
         (Reporter (b\<lparr>filename := str ''bar.py''\<rparr>)) = Inr True"
  by (simp add: FileReporter_eq_def FileReporter_ne_def FileReporter_init_def str_def)

text \<open>
  C3.  \<open>__lt__\<close> is a strict total order by file name: among reporters with pairwise
  distinct file names exactly one of \<open>a < b\<close> and \<open>b < a\<close> holds, and \<open>a < b\<close> with \<open>b < c\<close>
  gives \<open>a < c\<close>.  No comparison raises.
\<close>

theorem FileReporter_lt_strict_total_order:
  assumes "filename a \<noteq> filename b" and "filename b \<noteq> filename c"
    and "filename a \<noteq> filename c"
  shows "(FileReporter_lt a (Reporter b) = Inr True) \<noteq> (FileReporter_lt b (Reporter a) = Inr True)
    \<and> (FileReporter_lt a (Reporter b) = Inr True \<and> FileReporter_lt b (Reporter c) = Inr True
          \<longrightarrow> FileReporter_lt a (Reporter c) = Inr True)
    \<and> FileReporter_lt a (Reporter b) = Inr (str_lt (filename a) (filename b))"
proof -
  have one: "str_lt (filename a) (filename b) \<noteq> str_lt (filename b) (filename a)"
    using str_lt_total [OF assms(1)] str_lt_asym [of "filename a" "filename b"] by blast
  have tr: "str_lt (filename a) (filename b) \<and> str_lt (filename b) (filename c)
      \<longrightarrow> str_lt (filename a) (filename c)"
    using str_lt_trans by blast
  show ?thesis
    using one tr by (simp add: FileReporter_lt_def)
qed

theorem FileReporter_lt_strict_total_order_witness:
  "filename (FileReporter_init (str ''a.py'')) \<noteq> filename (FileReporter_init (str ''b.py''))
   \<and> filename (FileReporter_init (str ''b.py'')) \<noteq> filename (FileReporter_init (str ''c.py''))
   \<and> filename (FileReporter_init (str ''a.py'')) \<noteq> filename (FileReporter_init (str ''c.py''))
   \<and> FileReporter_lt (FileReporter_init (str ''a.py''))
         (Reporter (FileReporter_init (str ''b.py''))) = Inr True
   \<and> FileReporter_lt (FileReporter_init (str ''b.py''))
         (Reporter (FileReporter_init (str ''a.py''))) \<noteq> Inr True
   \<and> FileReporter_lt (FileReporter_init (str ''b.py''))
         (Reporter (FileReporter_init (str ''c.py''))) = Inr True
   \<and> FileReporter_lt (FileReporter_init (str ''a.py''))
         (Reporter (FileReporter_init (str ''c.py''))) = Inr True"
proof -
  let ?a = "FileReporter_init (str ''a.py'')"
  let ?b = "FileReporter_init (str ''b.py'')"
  let ?c = "FileReporter_init (str ''c.py'')"
  have ab: "filename ?a \<noteq> filename ?b" by (simp add: FileReporter_init_def str_def)
  have bc: "filename ?b \<noteq> filename ?c" by (simp add: FileReporter_init_def str_def)
  have ac: "filename ?a \<noteq> filename ?c" by (simp add: FileReporter_init_def str_def)
  have lab: "FileReporter_lt ?a (Reporter ?b) = Inr True"
    by (simp add: FileReporter_lt_def FileReporter_init_def str_def)
  have lbc: "FileReporter_lt ?b (Reporter ?c) = Inr True"
    by (simp add: FileReporter_lt_def FileReporter_init_def str_def)
  from FileReporter_lt_strict_total_order [OF ab bc ac] lab lbc ab bc ac
  show ?thesis by blast
qed

text \<open>
  C10.  Compared with an object that is no \<open>FileReporter\<close>, both \<open>__eq__\<close> and \<open>__lt__\<close>
  return \<open>False\<close>, whatever the file name of the reporter; neither raises.
\<close>

theorem FileReporter_compare_other_False:
  "FileReporter_eq r (Other v) = Inr False \<and> FileReporter_lt r (Other v) = Inr False"
  by (simp add: FileReporter_eq_def FileReporter_lt_def)

section \<open>Required methods\<close>

text \<open>
  C5.  The base-class \<open>FileReporter.lines\<close> and the base-class
  \<open>CoveragePlugin.file_reporter\<close> do not return a value: each raises the contract
  violation, which names the class of the offending object and the method.
\<close>

theorem required_methods_raise:
  "FileReporter_lines r = Inl (PluginContractViolation (class_name r) (str ''lines''))
   \<and> CoveragePlugin_file_reporter p fname
       = Inl (PluginContractViolation (plugin_class_name p) (str ''file_reporter''))"
  by (simp add: FileReporter_lines_def CoveragePlugin_file_reporter_def needs_to_implement_def)

section \<open>The description of a missing arc\<close>

























section \<open>Translation of recorded lines and arcs\<close>

text \<open>
  C7.  The default \<open>translate_lines\<close> returns, for any sequence enumerating a set of line
  numbers, that set; the default \<open>translate_arcs\<close> returns its argument.
\<close>

theorem translate_default_identity:
  "set lines = S \<Longrightarrow>
     FileReporter_translate_lines r lines = S \<and> FileReporter_translate_arcs r A = A"
  by (simp add: FileReporter_translate_lines_def FileReporter_translate_arcs_def)

theorem translate_default_identity_witness:
  "set [10, 12, 15, 12] = {10, 12, 15 :: int}
   \<and> FileReporter_translate_lines (FileReporter_init (str ''orig.xyz'')) [10, 12, 15, 12]
       = {10, 12, 15}
   \<and> FileReporter_translate_arcs (FileReporter_init (str ''orig.xyz'')) {(1, 2), (2, - 1)}
       = {(1, 2), (2, - 1)}"
proof -
  have h: "set [10, 12, 15, 12] = {10, 12, 15 :: int}" by auto
  show ?thesis
    by (rule conjI [OF h translate_default_identity [OF h]])
qed

section \<open>The line range of a frame\<close>

text \<open>
  C8.  The default \<open>line_number_range\<close> returns the pair whose two components are the
  current line number of the frame.
\<close>

theorem line_number_range_default:
  "FileTracer_line_number_range t fr = (f_lineno fr, f_lineno fr)
   \<and> fst (FileTracer_line_number_range t fr) = snd (FileTracer_line_number_range t fr)"
  by (simp add: FileTracer_line_number_range_def Let_def)

section \<open>Hashing\<close>

text \<open>
  C9.  A reporter cannot be hashed: \<open>hash\<close> raises \<open>TypeError\<close> for every reporter, and so
  does adding one to a set or storing under one in a dictionary.
\<close>

theorem FileReporter_unhashable:
  "py_hash r = Inl (TypeError (str ''unhashable type''))
   \<and> set_add s r = Inl (TypeError (str ''unhashable type''))
   \<and> dict_setitem d r v = Inl (TypeError (str ''unhashable type''))"
  by (simp add: py_hash_def set_add_def dict_setitem_def FileReporter_hash_slot_def)

section \<open>Exit counts and arcs\<close>

text \<open>
  The consistency predicate on an example with a branch: line 1 has two exits, line 2 has
  one.  An empty mapping is consistent with a set of arcs only when there are no arcs.
\<close>

lemma exit_counts_consistent_example:
  "exit_counts_consistent {(1, 2), (1, 3), (2, 3)} [1 \<mapsto> 2, 2 \<mapsto> 1]"
proof -
  have one: "exits_of {(1, 2), (1, 3), (2, 3)} 1 = {2, 3}"
    by (auto simp add: exits_of_def image_iff)
  have two: "exits_of {(1, 2), (1, 3), (2, 3)} 2 = {3}"
    by (auto simp add: exits_of_def image_iff)
  show ?thesis
    by (simp add: exit_counts_consistent_def one two)
qed

lemma exit_counts_consistent_empty_iff:
  "exit_counts_consistent arcs Map.empty \<longleftrightarrow> arcs = {}"
  by (auto simp add: exit_counts_consistent_def)

text \<open>
  C4, as stated, fails: a reporter whose class overrides \<open>arcs()\<close> to return the one arc
  from line 1 to line 2 and does not override \<open>exit_counts()\<close> has line 1 as the \<open>prev\<close> of
  an arc, and its \<open>exit_counts()\<close>, the empty mapping of the base class, has no entry for
  line 1.
\<close>

theorem exit_counts_not_derived_from_arcs:
  "\<not> exit_counts_consistent
       (call_arcs \<lparr>class_name = str ''BranchReporter'', filename = str ''foo.py'',
                   arcs_override = Some {(1, 2)}, exit_counts_override = None\<rparr>)
       (call_exit_counts \<lparr>class_name = str ''BranchReporter'', filename = str ''foo.py'',
                   arcs_override = Some {(1, 2)}, exit_counts_override = None\<rparr>)"
  by (simp add: call_arcs_def call_exit_counts_def FileReporter_exit_counts_def
      exit_counts_consistent_def)

text \<open>
  C4, as amended.  The default \<open>arcs()\<close> is the empty set and the default \<open>exit_counts()\<close>
  the empty mapping, so a reporter that overrides neither is consistent; and for every
  reporter that does not override \<open>exit_counts()\<close>, \<open>exit_counts()\<close> is consistent with
  \<open>arcs()\<close> exactly when \<open>arcs()\<close> is empty.
\<close>

theorem exit_counts_consistent_iff_no_arcs:
  "FileReporter_arcs r = {} \<and> FileReporter_exit_counts r = Map.empty
   \<and> (arcs_override p = None \<and> exit_counts_override p = None \<longrightarrow>
        call_arcs p = {} \<and> call_exit_counts p = Map.empty
        \<and> exit_counts_consistent (call_arcs p) (call_exit_counts p))
   \<and> (exit_counts_override p = None \<longrightarrow>
        (exit_counts_consistent (call_arcs p) (call_exit_counts p) \<longleftrightarrow> call_arcs p = {}))"
  by (simp add: call_arcs_def call_exit_counts_def FileReporter_arcs_def
      FileReporter_exit_counts_def exit_counts_consistent_empty_iff)

theorem exit_counts_consistent_iff_no_arcs_witness:
  "exit_counts_consistent
     (call_arcs \<lparr>class_name = str ''FileReporter'', filename = str ''orig.xyz'',
                 arcs_override = None, exit_counts_override = None\<rparr>)
     (call_exit_counts \<lparr>class_name = str ''FileReporter'', filename = str ''orig.xyz'',
                 arcs_override = None, exit_counts_override = None\<rparr>)
   \<and> \<not> exit_counts_consistent
       (call_arcs \<lparr>class_name = str ''XyzReporter'', filename = str ''orig.xyz'',
                   arcs_override = Some {(5, 6), (5, 7)}, exit_counts_override = None\<rparr>)
       (call_exit_counts \<lparr>class_name = str ''XyzReporter'', filename = str ''orig.xyz'',
                   arcs_override = Some {(5, 6), (5, 7)}, exit_counts_override = None\<rparr>)"
proof -
  let ?p = "\<lparr>class_name = str ''FileReporter'', filename = str ''orig.xyz'',
             arcs_override = None, exit_counts_override = None\<rparr>"
  let ?q = "\<lparr>class_name = str ''XyzReporter'', filename = str ''orig.xyz'',
             arcs_override = Some {(5, 6), (5, 7)}, exit_counts_override = None\<rparr>"
  have p: "arcs_override ?p = None \<and> exit_counts_override ?p = None" by simp
  have q: "exit_counts_override ?q = None" by simp
  have q_arcs: "call_arcs ?q \<noteq> {}" by (simp add: call_arcs_def)
  from exit_counts_consistent_iff_no_arcs [of ?p ?p] p
  have "exit_counts_consistent (call_arcs ?p) (call_exit_counts ?p)" by blast
  moreover from exit_counts_consistent_iff_no_arcs [of ?q ?q] q q_arcs
  have "\<not> exit_counts_consistent (call_arcs ?q) (call_exit_counts ?q)" by blast
  ultimately show ?thesis by (rule conjI)
qed

section \<open>Token lines and the source text\<close>

text \<open>
  Where the round trip does hold: a text whose only line boundaries are line feeds and
  which does not end in one is put back together from its lines.
\<close>

lemma splitlines_Nil: "splitlines [] = []"
  by (simp add: splitlines.simps)

lemma splitlines_Cons:
  "s \<noteq> [] \<Longrightarrow>
   splitlines s = takeWhile (\<lambda>c. \<not> is_linebreak c) s
     # splitlines (skip_eol (dropWhile (\<lambda>c. \<not> is_linebreak c) s))"
  by (subst splitlines.simps) simp

lemma join_Cons_Cons: "ys \<noteq> [] \<Longrightarrow> join sep (x # ys) = x @ sep @ join sep ys"
  by (cases ys) simp_all

lemma splitlines_roundtrip_plain:
  assumes "\<forall>c \<in> set s. is_linebreak c \<longrightarrow> c = 0x0A" and "s = [] \<or> last s \<noteq> 0x0A"
  shows "join [0x0A] (splitlines s) = s"
  using assms
proof (induction s rule: splitlines.induct)
  case (1 s)
  show ?case
  proof (cases "s = []")
    case True
    then show ?thesis by (simp add: splitlines_Nil)
  next
    case False
    let ?line = "takeWhile (\<lambda>c. \<not> is_linebreak c) s"
    let ?d = "dropWhile (\<lambda>c. \<not> is_linebreak c) s"
    have s_eq: "s = ?line @ ?d" by simp
    have sp: "splitlines s = ?line # splitlines (skip_eol ?d)"
      by (rule splitlines_Cons [OF False])
    show ?thesis
    proof (cases ?d)
      case Nil
      have "skip_eol ?d = []"
        by (simp only: Nil skip_eol.simps)
      with sp have "splitlines s = [?line]"
        by (simp only: splitlines_Nil)
      moreover from Nil have "?line = s"
        using s_eq by (metis append_Nil2)
      ultimately show ?thesis by simp
    next
      case (Cons c r)
      have "is_linebreak c"
        using hd_dropWhile [of "\<lambda>c. \<not> is_linebreak c" s] Cons by simp
      moreover have "c \<in> set s"
        using Cons set_dropWhileD [of c "\<lambda>c. \<not> is_linebreak c" s] by simp
      ultimately have c: "c = 0x0A" using "1.prems"(1) by blast
      have last_s: "last s = last (c # r)"
        using s_eq Cons by (metis last_appendR list.distinct(1))
      have r_ne: "r \<noteq> []"
      proof
        assume "r = []"
        with last_s c have "last s = 0x0A" by simp
        with False "1.prems"(2) show False by blast
      qed
      then have "skip_eol (c # r) = r"
        using c by (cases r) simp_all
      then have skip: "skip_eol ?d = r"
        by (simp only: Cons)
      have sub: "set r \<subseteq> set s"
        using Cons set_dropWhileD [of _ "\<lambda>c. \<not> is_linebreak c" s] by auto
      have last_r: "last r \<noteq> 0x0A"
        using last_s r_ne False "1.prems"(2) by simp
      have ih: "join [0x0A] (splitlines r) = r"
        using "1.IH" [OF False] skip sub "1.prems"(1) last_r by auto
      have sp_ne: "splitlines r \<noteq> []"
        using r_ne by (simp add: splitlines_Cons)
      have "splitlines s = ?line # splitlines r"
        using sp by (simp only: skip)
      then have "join [0x0A] (splitlines s) = ?line @ [0x0A] @ r"
        using sp_ne ih by (simp add: join_Cons_Cons)
      also have "\<dots> = ?line @ ?d"
        by (simp only: Cons c append_Cons append_Nil)
      finally show ?thesis by simp
    qed
  qed
qed

lemma splitlines_a_nl: "splitlines (str ''a'' @ [0x0A]) = [str ''a'']"
  by (simp add: str_def splitlines.simps is_linebreak_def)

text \<open>
  C1.  Joining the token texts of each line and then the lines with newlines does not
  always give \<open>source()\<close> back: for a file whose text is \<open>a\<close> followed by a line feed,
  \<open>source()\<close> is that text, while the token lines are put back together as \<open>a\<close> alone.
\<close>

theorem source_token_lines_drops_final_newline:
  "FileReporter_source (\<lambda>name. Inr (str ''a'' @ [0x0A])) (FileReporter_init (str ''foo.py''))
     = Inr (str ''a'' @ [0x0A])
   \<and> map_sum id untokenize
        (FileReporter_source_token_lines (\<lambda>name. Inr (str ''a'' @ [0x0A]))
           (FileReporter_init (str ''foo.py'')))
     = Inr (str ''a'')
   \<and> str ''a'' \<noteq> str ''a'' @ [0x0A]"
  by (simp add: FileReporter_source_def FileReporter_source_token_lines_def untokenize_def
      splitlines_a_nl)

end
